theory Spec2Isabelle
  imports Main
begin

section \<open>Values that cross the HTTP boundary\<close>

text \<open>
  The route handlers of \<^verbatim>\<open>routes.ts\<close> read request bodies that Express has parsed from
  JSON and that the source types as \<^verbatim>\<open>any\<close>. A body is therefore modelled as a JSON value,
  with \<open>JUndefined\<close> for a body (or a property) that is absent. Numbers are integers here:
  no handler computes with a number it has read from a body.
\<close>

datatype json =
    JUndefined
  | JNull
  | JBool bool
  | JNumber int
  | JString string
  | JArray "json list"
  | JObject "(string \<times> json) list"

text \<open>
  What a \<^verbatim>\<open>try\<close> block can throw. A \<open>TypeError\<close> is raised by the language itself (a
  property read on \<^verbatim>\<open>null\<close> or \<^verbatim>\<open>undefined\<close>, a value that has no primitive rendering); a
  \<open>StripeError\<close> is raised by the processor's client. Both carry their message.
\<close>

datatype error = TypeError string | StripeError string

fun message :: "error \<Rightarrow> string" where
  "message (TypeError m) = m"
| "message (StripeError m) = m"

text \<open>
  The property read \<^verbatim>\<open>v.k\<close>. It throws on \<^verbatim>\<open>undefined\<close> and \<^verbatim>\<open>null\<close>, looks the key up in an
  object (the first binding of a key in the association list is the object's property) and
  is \<^verbatim>\<open>undefined\<close> on every other value. The handlers read the keys \<^verbatim>\<open>type\<close>, \<^verbatim>\<open>data\<close> and
  \<^verbatim>\<open>object\<close> only, none of which a string, number, boolean or array inherits.
\<close>

fun getProp :: "json \<Rightarrow> string \<Rightarrow> error + json" where
  "getProp JUndefined k = Inl (TypeError (''Cannot read properties of undefined (reading '' @ k @ '')''))"
| "getProp JNull k = Inl (TypeError (''Cannot read properties of null (reading '' @ k @ '')''))"
| "getProp (JObject kvs) k = Inr (case map_of kvs k of None \<Rightarrow> JUndefined | Some v \<Rightarrow> v)"
| "getProp (JBool b) k = Inr JUndefined"
| "getProp (JNumber n) k = Inr JUndefined"
| "getProp (JString s) k = Inr JUndefined"
| "getProp (JArray xs) k = Inr JUndefined"

text \<open>
  A template literal \<^verbatim>\<open>`... ${v}`\<close> converts \<open>v\<close> to a string. The conversion throws a
  TypeError exactly when it meets an object whose own \<^verbatim>\<open>toString\<close> property shadows the
  inherited method (a parsed JSON value is never callable); an array is joined, so it
  throws when one of its elements does. Only whether the conversion throws is modelled,
  not the text it produces.
\<close>

fun templateThrows :: "json \<Rightarrow> bool" where
  "templateThrows (JObject kvs) = (''toString'' \<in> set (map fst kvs))"
| "templateThrows (JArray xs) = list_ex templateThrows xs"
| "templateThrows JUndefined = False"
| "templateThrows JNull = False"
| "templateThrows (JBool b) = False"
| "templateThrows (JNumber n) = False"
| "templateThrows (JString s) = False"

text \<open>Lines written to the console: it is the only thing the webhook handler writes.\<close>

datatype console_line =
    UnhandledEventType json
  | ErrorLine string error

section \<open>The relational store\<close>

text \<open>
  The data-access layer (\<^verbatim>\<open>DatabaseStorage\<close>) runs one query per method against five
  tables. A table is the list of its rows; an insert appends a row. The table
  declarations (\<^verbatim>\<open>@shared/schema\<close>) are not part of the sources, so a row has the
  columns that the sources name. A nullable text column is a \<open>string option\<close>, a
  timestamp is a number of milliseconds.

  The database is taken to be reachable and its constraints to hold: a storage call
  returns. A query reads the first row that a \<^verbatim>\<open>select\<close> or \<^verbatim>\<open>returning\<close> yields
  (\<^verbatim>\<open>const [row] = ...\<close>), which is \<^verbatim>\<open>undefined\<close>, here \<open>None\<close>, when there is none.
\<close>

record user =
  u_id :: string
  u_email :: "string option"
  u_firstName :: "string option"
  u_lastName :: "string option"
  u_stripeCustomerId :: "string option"
  u_stripeSubscriptionId :: "string option"
  u_currentPlan :: "string option"
  u_updatedAt :: nat

record plan =
  pl_id :: string
  pl_name :: string
  pl_price :: string
  pl_features :: string
  pl_portfolioLimit :: "nat option"
  pl_rebalancingFrequency :: string
  pl_managementFee :: string
  pl_hasAdvancedAnalytics :: bool
  pl_hasTaxOptimization :: bool
  pl_hasDedicatedAdvisor :: bool
  pl_isPopular :: bool

record portfolio =
  pf_id :: string
  pf_userId :: string
  pf_totalValue :: string
  pf_totalReturn :: string
  pf_monthlyDeposit :: string
  pf_activeInvestments :: nat

record history =
  h_portfolioId :: string
  h_value :: string
  h_date :: nat

text \<open>
  Modelled from the spec: the columns of a payment row. The sources name \<^verbatim>\<open>id\<close>,
  \<^verbatim>\<open>userId\<close> and \<^verbatim>\<open>status\<close>; the Payment Record of the specification adds an amount and a
  creation time. Every further column of the missing table declaration is kept, by its
  name, in \<open>pay_columns\<close>.
\<close>

record payment =
  pay_id :: string
  pay_userId :: string
  pay_amount :: string
  pay_status :: string
  pay_createdAt :: nat
  pay_columns :: "(string \<times> string) list"

record store =
  users :: "user list"
  plans :: "plan list"
  portfolios :: "portfolio list"
  portfolioHistory :: "history list"
  payments :: "payment list"

text \<open>The argument of \<^verbatim>\<open>updateUser\<close>: the keys of the patch that the sources pass.\<close>

record updateUser_data =
  set_currentPlan :: "string option"

text \<open>The argument of \<^verbatim>\<open>createPortfolio\<close>; the identifier is the column's default.\<close>

record insertPortfolio =
  ins_userId :: string
  ins_totalValue :: string
  ins_totalReturn :: string
  ins_monthlyDeposit :: string
  ins_activeInvestments :: nat

subsection \<open>User operations\<close>

definition getUser :: "string \<Rightarrow> store \<Rightarrow> user option" where
  "getUser i st = find (\<lambda>u. u_id u = i) (users st)"

text \<open>
  An \<^verbatim>\<open>update ... where id = i returning\<close> rewrites every row that matches and yields the
  rewritten rows; \<open>now\<close> is the value of \<^verbatim>\<open>new Date()\<close>.
\<close>

definition updateUser :: "string \<Rightarrow> updateUser_data \<Rightarrow> nat \<Rightarrow> store \<Rightarrow> user option \<times> store" where
  "updateUser i userData now st =
     (let upd = (\<lambda>u. (case set_currentPlan userData of
                         None \<Rightarrow> u
                       | Some p \<Rightarrow> u\<lparr>u_currentPlan := Some p\<rparr>)\<lparr>u_updatedAt := now\<rparr>);
          rows = map (\<lambda>u. if u_id u = i then upd u else u) (users st)
      in (find (\<lambda>u. u_id u = i) rows, st\<lparr>users := rows\<rparr>))"

definition updateUserStripeInfo :: "string \<Rightarrow> string \<Rightarrow> string \<Rightarrow> nat \<Rightarrow> store \<Rightarrow> user option \<times> store" where
  "updateUserStripeInfo i stripeCustomerId stripeSubscriptionId now st =
     (let upd = (\<lambda>u. u\<lparr>u_stripeCustomerId := Some stripeCustomerId,
                         u_stripeSubscriptionId := Some stripeSubscriptionId,
                         u_updatedAt := now\<rparr>);
          rows = map (\<lambda>u. if u_id u = i then upd u else u) (users st)
      in (find (\<lambda>u. u_id u = i) rows, st\<lparr>users := rows\<rparr>))"

subsection \<open>Plan operations\<close>

definition getPlans :: "store \<Rightarrow> plan list" where
  "getPlans st = plans st"

definition getPlan :: "string \<Rightarrow> store \<Rightarrow> plan option" where
  "getPlan i st = find (\<lambda>p. pl_id p = i) (plans st)"

subsection \<open>Portfolio operations\<close>

definition getUserPortfolio :: "string \<Rightarrow> store \<Rightarrow> portfolio option" where
  "getUserPortfolio userId st = find (\<lambda>p. pf_userId p = userId) (portfolios st)"

definition createPortfolio :: "insertPortfolio \<Rightarrow> string \<Rightarrow> store \<Rightarrow> portfolio \<times> store" where
  "createPortfolio ins newId st =
     (let newPortfolio = \<lparr>pf_id = newId, pf_userId = ins_userId ins,
                           pf_totalValue = ins_totalValue ins,
                           pf_totalReturn = ins_totalReturn ins,
                           pf_monthlyDeposit = ins_monthlyDeposit ins,
                           pf_activeInvestments = ins_activeInvestments ins\<rparr>
      in (newPortfolio, st\<lparr>portfolios := portfolios st @ [newPortfolio]\<rparr>))"

text \<open>
  The newest \<open>limit\<close> entries of a portfolio, by date. SQL leaves the order of rows with
  equal dates open; here the later insert comes first.
\<close>

definition getPortfolioHistory :: "string \<Rightarrow> nat \<Rightarrow> store \<Rightarrow> history list" where
  "getPortfolioHistory portfolioId limit st =
     take limit (rev (sort_key h_date
       (filter (\<lambda>h. h_portfolioId h = portfolioId) (portfolioHistory st))))"

definition addPortfolioHistory :: "string \<Rightarrow> string \<Rightarrow> nat \<Rightarrow> store \<Rightarrow> history \<times> store" where
  "addPortfolioHistory portfolioId v now st =
     (let row = \<lparr>h_portfolioId = portfolioId, h_value = v, h_date = now\<rparr>
      in (row, st\<lparr>portfolioHistory := portfolioHistory st @ [row]\<rparr>))"

subsection \<open>Payment operations\<close>

definition getPaymentsByUser :: "string \<Rightarrow> store \<Rightarrow> payment list" where
  "getPaymentsByUser userId st = filter (\<lambda>p. pay_userId p = userId) (payments st)"

definition updatePaymentStatus :: "string \<Rightarrow> string \<Rightarrow> store \<Rightarrow> payment option \<times> store" where
  "updatePaymentStatus i s st =
     (let rows = map (\<lambda>p. if pay_id p = i then p\<lparr>pay_status := s\<rparr> else p) (payments st)
      in (find (\<lambda>p. pay_id p = i) rows, st\<lparr>payments := rows\<rparr>))"

section \<open>The payment processor\<close>

text \<open>
  The Stripe client is the second store the handlers write to. Its state is the objects
  it holds. The processor is taken to be reachable: a call throws only when the object it
  asks for does not exist. The identifiers of new objects are the processor's choice and
  are handed in by the caller of the model.

  The amount of a subscription is \<^verbatim>\<open>Math.round(parseFloat(plan.price) * 100)\<close>, a
  floating-point computation; the subscription object keeps the price text it is computed
  from.
\<close>

record customer =
  cus_id :: string
  cus_email :: string
  cus_name :: string
  cus_userId :: string

record payment_intent =
  pi_client_secret :: "string option"

record invoice =
  inv_id :: string
  inv_payment_intent :: "payment_intent option"

record subscription =
  sub_id :: string
  sub_customer :: string
  sub_productName :: string
  sub_price :: string
  sub_latest_invoice :: "string option"

record processor =
  customers :: "customer list"
  subscriptions :: "subscription list"
  invoices :: "invoice list"

definition customers_create :: "string \<Rightarrow> string \<Rightarrow> string \<Rightarrow> string \<Rightarrow> processor \<Rightarrow> customer \<times> processor" where
  "customers_create email name userId newId p =
     (let c = \<lparr>cus_id = newId, cus_email = email, cus_name = name, cus_userId = userId\<rparr>
      in (c, p\<lparr>customers := customers p @ [c]\<rparr>))"

text \<open>
  A subscription created with \<^verbatim>\<open>payment_behavior: 'default_incomplete'\<close> comes with its
  first invoice and that invoice's payment intent, which the reply carries expanded.
\<close>

definition subscriptions_create ::
    "string \<Rightarrow> string \<Rightarrow> string \<Rightarrow> string \<Rightarrow> string \<Rightarrow> string \<Rightarrow> processor \<Rightarrow> (subscription \<times> invoice) \<times> processor" where
  "subscriptions_create customerId productName price newId invoiceId secret p =
     (let inv = \<lparr>inv_id = invoiceId,
                  inv_payment_intent = Some \<lparr>pi_client_secret = Some secret\<rparr>\<rparr>;
          sub = \<lparr>sub_id = newId, sub_customer = customerId, sub_productName = productName,
                  sub_price = price, sub_latest_invoice = Some invoiceId\<rparr>
      in ((sub, inv), p\<lparr>subscriptions := subscriptions p @ [sub],
                         invoices := invoices p @ [inv]\<rparr>))"

definition subscriptions_retrieve :: "string \<Rightarrow> processor \<Rightarrow> error + subscription" where
  "subscriptions_retrieve i p =
     (case find (\<lambda>s. sub_id s = i) (subscriptions p) of
        None \<Rightarrow> Inl (StripeError (''No such subscription: '' @ i))
      | Some s \<Rightarrow> Inr s)"

text \<open>
  The handler passes \<^verbatim>\<open>subscription.latest_invoice as string\<close>, which can be \<^verbatim>\<open>null\<close>; the
  client refuses an identifier that is not a string.
\<close>

definition invoices_retrieve :: "string option \<Rightarrow> processor \<Rightarrow> error + invoice" where
  "invoices_retrieve i p =
     (case i of
        None \<Rightarrow> Inl (StripeError ''Stripe: Argument id must be a string, but got: null'')
      | Some j \<Rightarrow>
          (case find (\<lambda>v. inv_id v = j) (invoices p) of
             None \<Rightarrow> Inl (StripeError (''No such invoice: '' @ j))
           | Some v \<Rightarrow> Inr v))"

section \<open>The world of a request\<close>

text \<open>
  A handler runs against the database, the processor and the console. What the
  environment chooses is read from two oracles: \<open>ids\<close> gives the identifiers that the
  database and the processor assign to new objects, \<open>clock\<close> the successive values of
  \<^verbatim>\<open>new Date()\<close>; \<open>drawn\<close> and \<open>ticks\<close> count what has been read from them.
\<close>

record world =
  db :: store
  stripe :: processor
  console :: "console_line list"
  ids :: "nat \<Rightarrow> string"
  drawn :: nat
  clock :: "nat \<Rightarrow> nat"
  ticks :: nat

definition newId :: "world \<Rightarrow> string \<times> world" where
  "newId w = (ids w (drawn w), w\<lparr>drawn := Suc (drawn w)\<rparr>)"

definition newDate :: "world \<Rightarrow> nat \<times> world" where
  "newDate w = (clock w (ticks w), w\<lparr>ticks := Suc (ticks w)\<rparr>)"

datatype body =
    Message string
  | SubscriptionReply string "string option"
  | Received
  | PortfolioReply portfolio "history list"

record response =
  status :: nat
  body :: body

definition json_reply :: "body \<Rightarrow> response" where
  "json_reply b = \<lparr>status = 200, body = b\<rparr>"

definition status_reply :: "nat \<Rightarrow> body \<Rightarrow> response" where
  "status_reply n b = \<lparr>status = n, body = b\<rparr>"

definition console_error :: "string \<Rightarrow> error \<Rightarrow> world \<Rightarrow> world" where
  "console_error label e w = w\<lparr>console := console w @ [ErrorLine label e]\<rparr>"

section \<open>GET /api/portfolio\<close>

text \<open>The arrays \<^verbatim>\<open>dates\<close> and \<^verbatim>\<open>values\<close> of the handler; the loop runs over the first.\<close>

definition sample_dates :: "string list" where
  "sample_dates = [''2024-01-01'', ''2024-02-01'', ''2024-03-01'', ''2024-04-01'',
     ''2024-05-01'', ''2024-06-01'', ''2024-07-01'', ''2024-08-01'', ''2024-09-01'',
     ''2024-10-01'']"

definition sample_values :: "string list" where
  "sample_values = [''100000'', ''102500'', ''98000'', ''105000'', ''108500'', ''112000'',
     ''118500'', ''121000'', ''119500'', ''124567'']"

text \<open>
  The loop \<^verbatim>\<open>for (let i = 0; i < dates.length; i++)\<close>, from index \<open>i\<close> on. Each round stores
  \<^verbatim>\<open>values[i]\<close> under the date of the moment. Both arrays have ten elements, so the read
  of \<^verbatim>\<open>values[i]\<close> is in range in every round.
\<close>

function sample_history_loop :: "string \<Rightarrow> nat \<Rightarrow> world \<Rightarrow> world" where
  "sample_history_loop portfolioId i w =
     (if i < length sample_dates
      then (case newDate w of
              (now, w1) \<Rightarrow>
                sample_history_loop portfolioId (i + 1)
                  (w1\<lparr>db := snd (addPortfolioHistory portfolioId (sample_values ! i) now (db w1))\<rparr>))
      else w)"
  by pat_completeness auto
termination
  by (relation "measure (\<lambda>(p, i, w). length sample_dates - i)") auto

declare sample_history_loop.simps [simp del]

text \<open>The handler, for the authenticated user \<open>userId\<close> (\<^verbatim>\<open>req.user.claims.sub\<close>).\<close>

definition get_portfolio :: "world \<Rightarrow> string \<Rightarrow> world \<times> response" where
  "get_portfolio w userId =
     (case getUserPortfolio userId (db w) of
        Some portfolio \<Rightarrow>
          (w, json_reply (PortfolioReply portfolio (getPortfolioHistory (pf_id portfolio) 10 (db w))))
      | None \<Rightarrow>
          (case newId w of
             (i, w1) \<Rightarrow>
               (case createPortfolio
                       \<lparr>ins_userId = userId, ins_totalValue = ''124567.00'',
                        ins_totalReturn = ''18.4000'', ins_monthlyDeposit = ''2500.00'',
                        ins_activeInvestments = 12\<rparr> i (db w1) of
                  (portfolio, st) \<Rightarrow>
                    (let w2 = sample_history_loop (pf_id portfolio) 0 (w1\<lparr>db := st\<rparr>)
                     in (w2, json_reply (PortfolioReply portfolio
                               (getPortfolioHistory (pf_id portfolio) 10 (db w2))))))))"

section \<open>POST /api/create-subscription\<close>

text \<open>
  JavaScript's truth of a nullable string: \<^verbatim>\<open>null\<close>, \<^verbatim>\<open>undefined\<close> and the empty string are
  false. \<open>js_or v d\<close> is \<^verbatim>\<open>v || d\<close>. \<open>js_trim\<close> is \<^verbatim>\<open>trim()\<close> on the white space of ASCII;
  a character is a byte here, and the spaces of Unicode beyond ASCII are left alone.
\<close>

definition truthy :: "string option \<Rightarrow> bool" where
  "truthy v = (case v of None \<Rightarrow> False | Some s \<Rightarrow> s \<noteq> [])"

definition js_or :: "string option \<Rightarrow> string \<Rightarrow> string" where
  "js_or v d = (case v of None \<Rightarrow> d | Some s \<Rightarrow> if s = [] then d else s)"

definition is_space :: "char \<Rightarrow> bool" where
  "is_space c = (c \<in> set [CHR '' '', CHR 0x09, CHR 0x0A, CHR 0x0B, CHR 0x0C, CHR 0x0D])"

definition js_trim :: "string \<Rightarrow> string" where
  "js_trim s = rev (dropWhile is_space (rev (dropWhile is_space s)))"

text \<open>
  The branch for a user who already has a subscription: two reads of the processor, no
  write.
\<close>

definition retrieve_existing :: "world \<Rightarrow> string \<Rightarrow> world \<times> (error + response)" where
  "retrieve_existing w stripeSubscriptionId =
     (case subscriptions_retrieve stripeSubscriptionId (stripe w) of
        Inl e \<Rightarrow> (w, Inl e)
      | Inr subscription \<Rightarrow>
          (case invoices_retrieve (sub_latest_invoice subscription) (stripe w) of
             Inl e \<Rightarrow> (w, Inl e)
           | Inr invoice \<Rightarrow>
               (w, Inr (json_reply (SubscriptionReply (sub_id subscription)
                  (case inv_payment_intent invoice of
                     None \<Rightarrow> None
                   | Some paymentIntent \<Rightarrow> pi_client_secret paymentIntent))))))"

text \<open>
  The branch that creates the customer and the subscription and then records both on the
  user. What has been written stays written when the last read throws.
\<close>

definition create_new :: "world \<Rightarrow> string \<Rightarrow> string \<Rightarrow> user \<Rightarrow> plan \<Rightarrow> world \<times> (error + response)" where
  "create_new w userId planId user plan =
     (let email = js_or (u_email user) [];
          trimmed = js_trim (js_or (u_firstName user) [] @ '' '' @ js_or (u_lastName user) []);
          name = (if trimmed = [] then email else trimmed)
      in case newId w of (customerId, w1) \<Rightarrow>
         case customers_create email name userId customerId (stripe w1) of (customer, p1) \<Rightarrow>
         case newId (w1\<lparr>stripe := p1\<rparr>) of (subscriptionId, w2) \<Rightarrow>
         case newId w2 of (invoiceId, w3) \<Rightarrow>
         case newId w3 of (secret, w4) \<Rightarrow>
         case subscriptions_create (cus_id customer) (pl_name plan) (pl_price plan)
                subscriptionId invoiceId secret (stripe w4) of ((subscription, invoice), p2) \<Rightarrow>
         case newDate (w4\<lparr>stripe := p2\<rparr>) of (t1, w5) \<Rightarrow>
         case updateUserStripeInfo userId (cus_id customer) (sub_id subscription) t1 (db w5) of (r1, st1) \<Rightarrow>
         case newDate (w5\<lparr>db := st1\<rparr>) of (t2, w6) \<Rightarrow>
         case updateUser userId \<lparr>set_currentPlan = Some planId\<rparr> t2 (db w6) of (r2, st2) \<Rightarrow>
         (case inv_payment_intent invoice of
            None \<Rightarrow>
              (w6\<lparr>db := st2\<rparr>,
               Inl (TypeError ''Cannot read properties of null (reading client_secret)''))
          | Some paymentIntent \<Rightarrow>
              (w6\<lparr>db := st2\<rparr>,
               Inr (json_reply (SubscriptionReply (sub_id subscription)
                      (pi_client_secret paymentIntent))))))"

text \<open>
  The body of the handler's \<^verbatim>\<open>try\<close> block, for the authenticated user \<open>userId\<close> and the
  \<^verbatim>\<open>planId\<close> of the request body (\<open>None\<close> when the body has none). A plan identifier is a
  string, as the column it is compared with; a body whose \<^verbatim>\<open>planId\<close> is a number or an
  object is outside the model. The checks come in the handler's order: the plan
  identifier, the user, the plan, the recorded subscription, the email address.
\<close>

definition create_subscription_try :: "world \<Rightarrow> string \<Rightarrow> string option \<Rightarrow> world \<times> (error + response)" where
  "create_subscription_try w userId planId =
     (if \<not> truthy planId then (w, Inr (status_reply 400 (Message ''Plan ID is required'')))
      else
        (let user = getUser userId (db w);
             plan = getPlan (js_or planId []) (db w)
         in case user of
              None \<Rightarrow> (w, Inr (status_reply 404 (Message ''User not found'')))
            | Some u \<Rightarrow>
                (case plan of
                   None \<Rightarrow> (w, Inr (status_reply 404 (Message ''Plan not found'')))
                 | Some pl \<Rightarrow>
                     if truthy (u_stripeSubscriptionId u)
                     then retrieve_existing w (js_or (u_stripeSubscriptionId u) [])
                     else if \<not> truthy (u_email u)
                     then (w, Inr (status_reply 400 (Message ''No user email on file'')))
                     else create_new w userId (js_or planId []) u pl)))"

definition create_subscription :: "world \<Rightarrow> string \<Rightarrow> string option \<Rightarrow> world \<times> response" where
  "create_subscription w userId planId =
     (case create_subscription_try w userId planId of
        (w', Inr r) \<Rightarrow> (w', r)
      | (w', Inl e) \<Rightarrow>
          (console_error ''Error creating subscription:'' e w',
           status_reply 500 (Message (''Error creating subscription: '' @ message e))))"

section \<open>POST /api/stripe-webhook\<close>

text \<open>
  A delivery is the parsed body together with the request's headers. The handler reads the
  body only.
\<close>

record webhook_request =
  req_headers :: "(string \<times> string) list"
  req_body :: json

definition stripe_webhook_try :: "world \<Rightarrow> json \<Rightarrow> world \<times> (error + response)" where
  "stripe_webhook_try w payload =
     (let event = payload
      in case getProp event ''type'' of
           Inl e \<Rightarrow> (w, Inl e)
         | Inr t \<Rightarrow>
             if t = JString ''payment_intent.succeeded'' then
               (case getProp event ''data'' of
                  Inl e \<Rightarrow> (w, Inl e)
                | Inr d \<Rightarrow>
                    (case getProp d ''object'' of
                       Inl e \<Rightarrow> (w, Inl e)
                     | Inr paymentIntent \<Rightarrow> (w, Inr (json_reply Received))))
             else if t = JString ''customer.subscription.updated'' then
               (case getProp event ''data'' of
                  Inl e \<Rightarrow> (w, Inl e)
                | Inr d \<Rightarrow>
                    (case getProp d ''object'' of
                       Inl e \<Rightarrow> (w, Inl e)
                     | Inr subscription \<Rightarrow> (w, Inr (json_reply Received))))
             else if templateThrows t then
               (w, Inl (TypeError ''Cannot convert object to primitive value''))
             else
               (w\<lparr>console := console w @ [UnhandledEventType t]\<rparr>, Inr (json_reply Received)))"

definition stripe_webhook :: "world \<Rightarrow> webhook_request \<Rightarrow> world \<times> response" where
  "stripe_webhook w req =
     (case stripe_webhook_try w (req_body req) of
        (w', Inr r) \<Rightarrow> (w', r)
      | (w', Inl e) \<Rightarrow>
          (console_error ''Error handling webhook:'' e w',
           status_reply 500 (Message ''Webhook error'')))"

section \<open>Seeding the plans\<close>

text \<open>
  \<^verbatim>\<open>JSON.stringify\<close> of an array of strings none of whose characters needs an escape, which
  is what the feature lists of the default plans are.
\<close>

fun comma_join :: "string list \<Rightarrow> string" where
  "comma_join [] = []"
| "comma_join [x] = x"
| "comma_join (x # y # ys) = x @ '','' @ comma_join (y # ys)"

definition JSON_stringify :: "string list \<Rightarrow> string" where
  "JSON_stringify xs = ''['' @ comma_join (map (\<lambda>x. CHR 0x22 # x @ [CHR 0x22]) xs) @ '']''"

definition defaultPlans :: "plan list" where
  "defaultPlans =
     [\<lparr>pl_id = ''starter'', pl_name = ''Starter'', pl_price = ''0.00'',
       pl_features = JSON_stringify [''Up to $10,000 portfolio'', ''Basic portfolio tracking'',
         ''Monthly rebalancing'', ''Email support''],
       pl_portfolioLimit = Some 10000, pl_rebalancingFrequency = ''monthly'',
       pl_managementFee = ''0.0025'', pl_hasAdvancedAnalytics = False,
       pl_hasTaxOptimization = False, pl_hasDedicatedAdvisor = False, pl_isPopular = False\<rparr>,
      \<lparr>pl_id = ''professional'', pl_name = ''Professional'', pl_price = ''29.00'',
       pl_features = JSON_stringify [''Up to $100,000 portfolio'', ''Advanced analytics'',
         ''Weekly rebalancing'', ''Priority support'', ''Tax optimization''],
       pl_portfolioLimit = Some 100000, pl_rebalancingFrequency = ''weekly'',
       pl_managementFee = ''0.0020'', pl_hasAdvancedAnalytics = True,
       pl_hasTaxOptimization = True, pl_hasDedicatedAdvisor = False, pl_isPopular = True\<rparr>,
      \<lparr>pl_id = ''enterprise'', pl_name = ''Enterprise'', pl_price = ''99.00'',
       pl_features = JSON_stringify [''Unlimited portfolio size'', ''AI-powered insights'',
         ''Daily rebalancing'', ''Dedicated advisor'', ''Custom strategies''],
       pl_portfolioLimit = None, pl_rebalancingFrequency = ''daily'',
       pl_managementFee = ''0.0015'', pl_hasAdvancedAnalytics = True,
       pl_hasTaxOptimization = True, pl_hasDedicatedAdvisor = True, pl_isPopular = False\<rparr>]"

text \<open>
  The routine reads the plans and, when there are none, builds the default plans; the
  block ends there, where the source has two comments in place of an insert. Its \<^verbatim>\<open>catch\<close>
  branch logs a failed read and is not reached when the read returns.
\<close>

definition seedPlans :: "world \<Rightarrow> world" where
  "seedPlans w =
     (let existingPlans = getPlans (db w)
      in if length existingPlans = 0
         then (let plansToInsert = defaultPlans in w)
         else w)"

section \<open>A sample deployment\<close>

text \<open>
  A small world on which the theorems below are exercised: three users (one without an
  email address, one who already subscribed), the three plans, one pending payment, and a
  processor that holds the customer, subscription and invoice of the subscribed user.
\<close>

definition alice :: user where
  "alice = \<lparr>u_id = ''u1'', u_email = Some ''alice@example.com'', u_firstName = Some ''Alice'',
     u_lastName = None, u_stripeCustomerId = None, u_stripeSubscriptionId = None,
     u_currentPlan = None, u_updatedAt = 10\<rparr>"

definition bob :: user where
  "bob = \<lparr>u_id = ''u2'', u_email = None, u_firstName = Some ''Bob'',
     u_lastName = Some ''B'', u_stripeCustomerId = None, u_stripeSubscriptionId = None,
     u_currentPlan = None, u_updatedAt = 20\<rparr>"

definition carol :: user where
  "carol = \<lparr>u_id = ''u3'', u_email = Some ''carol@example.com'', u_firstName = None,
     u_lastName = None, u_stripeCustomerId = Some ''cus_1'',
     u_stripeSubscriptionId = Some ''sub_1'', u_currentPlan = Some ''professional'',
     u_updatedAt = 30\<rparr>"

definition carol_portfolio :: portfolio where
  "carol_portfolio = \<lparr>pf_id = ''pf_1'', pf_userId = ''u3'', pf_totalValue = ''500.00'',
     pf_totalReturn = ''1.0000'', pf_monthlyDeposit = ''50.00'', pf_activeInvestments = 2\<rparr>"

definition pending_payment :: payment where
  "pending_payment = \<lparr>pay_id = ''pay_1'', pay_userId = ''u3'', pay_amount = ''29.00'',
     pay_status = ''pending'', pay_createdAt = 25,
     pay_columns = [(''stripePaymentIntentId'', ''pi_1'')]\<rparr>"

definition sample_store :: store where
  "sample_store = \<lparr>users = [alice, bob, carol], plans = defaultPlans,
     portfolios = [carol_portfolio],
     portfolioHistory = [\<lparr>h_portfolioId = ''pf_1'', h_value = ''500'', h_date = 5\<rparr>],
     payments = [pending_payment]\<rparr>"

definition sample_processor :: processor where
  "sample_processor = \<lparr>
     customers = [\<lparr>cus_id = ''cus_1'', cus_email = ''carol@example.com'',
                   cus_name = ''carol@example.com'', cus_userId = ''u3''\<rparr>],
     subscriptions = [\<lparr>sub_id = ''sub_1'', sub_customer = ''cus_1'',
                       sub_productName = ''Professional'', sub_price = ''29.00'',
                       sub_latest_invoice = Some ''in_1''\<rparr>],
     invoices = [\<lparr>inv_id = ''in_1'',
                  inv_payment_intent = Some \<lparr>pi_client_secret = Some ''pi_1_secret''\<rparr>\<rparr>]\<rparr>"

definition sample_world :: world where
  "sample_world = \<lparr>db = sample_store, stripe = sample_processor, console = [],
     ids = (\<lambda>n. ''id'' @ replicate n (CHR ''x'')), drawn = 0,
     clock = (\<lambda>n. 1000 + n), ticks = 0\<rparr>"

text \<open>
  Deliveries. None carries a signature header. \<open>E1\<close> and \<open>E2\<close> are the two updates of the
  subscription \<^verbatim>\<open>sub_1\<close> created at times 1 and 2; \<open>succeeded\<close> reports that the payment
  intent \<^verbatim>\<open>pi_1\<close> of the pending payment went through.
\<close>

definition subscription_updated :: "string \<Rightarrow> int \<Rightarrow> string \<Rightarrow> webhook_request" where
  "subscription_updated eventId created st =
     \<lparr>req_headers = [(''content-type'', ''application/json'')],
      req_body = JObject [(''id'', JString eventId),
        (''type'', JString ''customer.subscription.updated''),
        (''created'', JNumber created),
        (''data'', JObject [(''object'',
           JObject [(''id'', JString ''sub_1''), (''status'', JString st)])])]\<rparr>"

definition E1 :: webhook_request where
  "E1 = subscription_updated ''evt_1'' 1 ''active''"

definition E2 :: webhook_request where
  "E2 = subscription_updated ''evt_2'' 2 ''past_due''"

definition succeeded :: webhook_request where
  "succeeded =
     \<lparr>req_headers = [(''content-type'', ''application/json'')],
      req_body = JObject [(''id'', JString ''evt_3''),
        (''type'', JString ''payment_intent.succeeded''),
        (''created'', JNumber 3),
        (''data'', JObject [(''object'',
           JObject [(''id'', JString ''pi_1''), (''status'', JString ''succeeded'')])])]\<rparr>"

text \<open>
  The same delivery under a signature header that no secret produces: the processor signs
  with HMAC-SHA256, whose rendering has 64 hexadecimal digits, and this one has two.
\<close>

definition forged :: webhook_request where
  "forged = succeeded\<lparr>req_headers := [(''stripe-signature'', ''t=0,v1=00'')]\<rparr>"

text \<open>The sample world before any plan is stored.\<close>

definition empty_catalogue :: world where
  "empty_catalogue = sample_world\<lparr>db := sample_store\<lparr>plans := []\<rparr>\<rparr>"

section \<open>What the webhook handler does\<close>

text \<open>
  The body of the \<^verbatim>\<open>try\<close> block writes to the console at most; its reply does not depend
  on the world, and when it replies at all the reply is \<^verbatim>\<open>{received: true}\<close>.
\<close>

lemma stripe_webhook_try_db: "db (fst (stripe_webhook_try w b)) = db w"
  by (simp add: stripe_webhook_try_def split: sum.splits)

lemma stripe_webhook_try_stripe: "stripe (fst (stripe_webhook_try w b)) = stripe w"
  by (simp add: stripe_webhook_try_def split: sum.splits)

lemma stripe_webhook_try_reply:
  "snd (stripe_webhook_try w b) = snd (stripe_webhook_try w' b)"
  by (simp add: stripe_webhook_try_def split: sum.splits)

lemma stripe_webhook_try_received:
  "snd (stripe_webhook_try w b) = Inr r \<Longrightarrow> r = json_reply Received"
  by (auto simp add: stripe_webhook_try_def split: sum.splits if_splits)

lemma stripe_webhook_db: "db (fst (stripe_webhook w req)) = db w"
proof (cases "stripe_webhook_try w (req_body req)")
  case (Pair w' res)
  with stripe_webhook_try_db [of w "req_body req"] show ?thesis
    by (cases res) (simp_all add: stripe_webhook_def console_error_def)
qed

lemma stripe_webhook_stripe: "stripe (fst (stripe_webhook w req)) = stripe w"
proof (cases "stripe_webhook_try w (req_body req)")
  case (Pair w' res)
  with stripe_webhook_try_stripe [of w "req_body req"] show ?thesis
    by (cases res) (simp_all add: stripe_webhook_def console_error_def)
qed

lemma stripe_webhook_reply:
  "snd (stripe_webhook w req) =
     (case snd (stripe_webhook_try w (req_body req)) of
        Inr r \<Rightarrow> r
      | Inl e \<Rightarrow> status_reply 500 (Message ''Webhook error''))"
  by (cases "stripe_webhook_try w (req_body req)")
     (simp add: stripe_webhook_def split: sum.splits)

lemma stripe_webhook_reply_cases:
  "snd (stripe_webhook w req) = json_reply Received
   \<or> snd (stripe_webhook w req) = status_reply 500 (Message ''Webhook error'')"
  using stripe_webhook_try_received [of w "req_body req"]
  by (auto simp add: stripe_webhook_reply split: sum.splits)

lemma stripe_webhook_reply_same_body:
  "req_body req' = req_body req \<Longrightarrow> snd (stripe_webhook w' req') = snd (stripe_webhook w req)"
  using stripe_webhook_try_reply [of w' "req_body req" w]
  by (simp add: stripe_webhook_reply)

text \<open>
  Claim C7. The webhook handler never persists anything: whatever the delivery (an event of
  type \<^verbatim>\<open>payment_intent.succeeded\<close> or \<^verbatim>\<open>customer.subscription.updated\<close>, any other body),
  the database (users, plans, portfolios, their history, payments) and the processor's
  objects are after the request what they were before it.
\<close>

theorem webhook_persists_nothing:
  "db (fst (stripe_webhook w req)) = db w \<and> stripe (fst (stripe_webhook w req)) = stripe w"
  by (simp add: stripe_webhook_db stripe_webhook_stripe)

text \<open>On the sample world, for the delivery that reports a succeeded payment.\<close>

theorem webhook_persists_nothing_witness:
  "db (fst (stripe_webhook sample_world succeeded)) = sample_store
   \<and> stripe (fst (stripe_webhook sample_world succeeded)) = sample_processor"
  using webhook_persists_nothing [of sample_world succeeded]
  by (simp add: sample_world_def)

text \<open>
  Claim C1 says that a delivery whose signature does not verify is refused with status 400.
  The handler reads no header: the forged delivery is answered 200 \<^verbatim>\<open>{received: true}\<close>.
\<close>

theorem forged_signature_accepted:
  "map_of (req_headers forged) ''stripe-signature'' = Some ''t=0,v1=00''
   \<and> snd (stripe_webhook sample_world forged) = \<lparr>status = 200, body = Received\<rparr>"
  by (simp add: forged_def succeeded_def stripe_webhook_def stripe_webhook_try_def json_reply_def)

text \<open>
  Claim C1, as the code has it. The handler does not verify the signature header: a
  delivery gets the same world and the same reply whatever its headers, the reply has
  status 200 or 500 and never 400, and neither the database nor the processor is written
  to (there is no Processed Event Log to add an entry to).
\<close>

theorem webhook_ignores_signature:
  "stripe_webhook w (req\<lparr>req_headers := hs\<rparr>) = stripe_webhook w req
   \<and> (status (snd (stripe_webhook w req)) = 200 \<or> status (snd (stripe_webhook w req)) = 500)
   \<and> db (fst (stripe_webhook w req)) = db w
   \<and> stripe (fst (stripe_webhook w req)) = stripe w"
proof -
  have "stripe_webhook w (req\<lparr>req_headers := hs\<rparr>) = stripe_webhook w req"
    by (simp add: stripe_webhook_def)
  moreover have "status (snd (stripe_webhook w req)) = 200 \<or> status (snd (stripe_webhook w req)) = 500"
    using stripe_webhook_reply_cases [of w req] by (auto simp add: json_reply_def status_reply_def)
  ultimately show ?thesis
    by (simp add: stripe_webhook_db stripe_webhook_stripe)
qed

theorem webhook_ignores_signature_witness:
  "stripe_webhook sample_world (succeeded\<lparr>req_headers := [(''stripe-signature'', ''t=0,v1=00'')]\<rparr>)
     = stripe_webhook sample_world succeeded
   \<and> status (snd (stripe_webhook sample_world succeeded)) = 200
   \<and> db (fst (stripe_webhook sample_world succeeded)) = sample_store"
  using webhook_ignores_signature [where w = sample_world and req = succeeded
      and hs = "[(''stripe-signature'', ''t=0,v1=00'')]"]
  by (simp add: sample_world_def succeeded_def stripe_webhook_def stripe_webhook_try_def json_reply_def)

text \<open>
  Claim C2 says that an event ingested twice has its effect applied exactly once. The
  effect of the succeeded payment is applied not even once: after two deliveries the
  payment is still pending.
\<close>

theorem duplicate_event_never_applied:
  "map pay_status
     (payments (db (fst (stripe_webhook (fst (stripe_webhook sample_world succeeded)) succeeded))))
     = [''pending'']"
  by (simp add: stripe_webhook_db sample_world_def sample_store_def pending_payment_def)

text \<open>
  Claim C2, as the code has it. Ingesting the same delivery a second time leaves the
  database and the processor as the first ingestion left them, which is as they were before
  it, and gets the reply the first one got: the handler applies no effect, so none is
  applied twice.
\<close>

theorem second_ingestion_changes_nothing:
  "db (fst (stripe_webhook (fst (stripe_webhook w req)) req)) = db (fst (stripe_webhook w req))
   \<and> stripe (fst (stripe_webhook (fst (stripe_webhook w req)) req)) = stripe (fst (stripe_webhook w req))
   \<and> snd (stripe_webhook (fst (stripe_webhook w req)) req) = snd (stripe_webhook w req)
   \<and> db (fst (stripe_webhook w req)) = db w"
  using stripe_webhook_reply_same_body [of req req "fst (stripe_webhook w req)" w]
  by (simp add: stripe_webhook_db stripe_webhook_stripe)

theorem second_ingestion_changes_nothing_witness:
  "snd (stripe_webhook (fst (stripe_webhook sample_world succeeded)) succeeded)
     = \<lparr>status = 200, body = Received\<rparr>
   \<and> db (fst (stripe_webhook (fst (stripe_webhook sample_world succeeded)) succeeded)) = sample_store"
  using second_ingestion_changes_nothing [of sample_world succeeded]
  by (simp add: sample_world_def succeeded_def stripe_webhook_def stripe_webhook_try_def json_reply_def)

text \<open>
  Claim C3 says that after \<open>E2\<close> (time 2, \<^verbatim>\<open>past_due\<close>) and then \<open>E1\<close> (time 1, \<^verbatim>\<open>active\<close>) the
  subscription's status is \<^verbatim>\<open>past_due\<close>. After the two deliveries the world is the sample
  world itself, which records no status but the payment's \<^verbatim>\<open>pending\<close>.
\<close>

theorem out_of_order_status_not_recorded:
  "fst (stripe_webhook (fst (stripe_webhook sample_world E2)) E1) = sample_world
   \<and> map pay_status (payments (db sample_world)) = [''pending'']"
  by (simp add: E1_def E2_def subscription_updated_def stripe_webhook_def stripe_webhook_try_def
      sample_world_def sample_store_def pending_payment_def)

text \<open>
  Claim C3, as the code has it. The handler applies no event to any record, whatever the
  event's time, so it applies none that is stale: after two deliveries, in either order,
  the database and the processor are what they were before the first.
\<close>

theorem events_never_applied:
  "db (fst (stripe_webhook (fst (stripe_webhook w e2)) e1)) = db w
   \<and> stripe (fst (stripe_webhook (fst (stripe_webhook w e2)) e1)) = stripe w"
  by (simp add: stripe_webhook_db stripe_webhook_stripe)

theorem events_never_applied_witness:
  "db (fst (stripe_webhook (fst (stripe_webhook sample_world E2)) E1)) = sample_store
   \<and> stripe (fst (stripe_webhook (fst (stripe_webhook sample_world E2)) E1)) = sample_processor"
  using events_never_applied [of sample_world E2 E1]
  by (simp add: sample_world_def)

section \<open>What seeding the plans does\<close>

text \<open>
  Claim C8. The seed-plans routine never writes: whatever the plans in the store, empty or
  not, the world after \<open>seedPlans\<close> is the world before it. The routine reads the plans and
  builds the default plans, which it inserts nowhere.
\<close>

theorem seedPlans_writes_nothing: "seedPlans w = w"
  by (simp add: seedPlans_def Let_def)

text \<open>On a store without plans, where the routine does build the default plans.\<close>

theorem seedPlans_writes_nothing_witness:
  "getPlans (db empty_catalogue) = [] \<and> plans (db (seedPlans empty_catalogue)) = []"
  using seedPlans_writes_nothing [of empty_catalogue]
  by (simp add: empty_catalogue_def getPlans_def)

section \<open>What updating a payment's status does\<close>

text \<open>
  The row that \<^verbatim>\<open>returning\<close> yields first is the first row with the identifier, rewritten;
  without such a row the update rewrites nothing.
\<close>

lemma find_updated_row:
  "find (\<lambda>p. pay_id p = i) (map (\<lambda>p. if pay_id p = i then p\<lparr>pay_status := s\<rparr> else p) ps)
     = map_option (\<lambda>p. p\<lparr>pay_status := s\<rparr>) (find (\<lambda>p. pay_id p = i) ps)"
  by (induction ps) simp_all

lemma no_row_updated:
  "find (\<lambda>p. pay_id p = i) ps = None \<Longrightarrow>
     map (\<lambda>p. if pay_id p = i then p\<lparr>pay_status := s\<rparr> else p) ps = ps"
  by (induction ps) (simp_all split: if_splits)

text \<open>
  Claim C10. \<open>updatePaymentStatus i s\<close> changes the status column of the payments whose
  identifier is \<open>i\<close> and nothing else: every other column of every payment (identifier,
  user, amount, creation time, and the remaining columns) and every other table is as
  before. It returns the rewritten row, and when no payment has the identifier it returns
  \<^verbatim>\<open>undefined\<close> and the store is unchanged.
\<close>

theorem updatePaymentStatus_changes_status_only:
  "map pay_id (payments (snd (updatePaymentStatus i s st))) = map pay_id (payments st)
   \<and> map pay_userId (payments (snd (updatePaymentStatus i s st))) = map pay_userId (payments st)
   \<and> map pay_amount (payments (snd (updatePaymentStatus i s st))) = map pay_amount (payments st)
   \<and> map pay_createdAt (payments (snd (updatePaymentStatus i s st))) = map pay_createdAt (payments st)
   \<and> map pay_columns (payments (snd (updatePaymentStatus i s st))) = map pay_columns (payments st)
   \<and> map pay_status (payments (snd (updatePaymentStatus i s st)))
       = map (\<lambda>p. if pay_id p = i then s else pay_status p) (payments st)
   \<and> users (snd (updatePaymentStatus i s st)) = users st
   \<and> plans (snd (updatePaymentStatus i s st)) = plans st
   \<and> portfolios (snd (updatePaymentStatus i s st)) = portfolios st
   \<and> portfolioHistory (snd (updatePaymentStatus i s st)) = portfolioHistory st
   \<and> fst (updatePaymentStatus i s st)
       = map_option (\<lambda>p. p\<lparr>pay_status := s\<rparr>) (find (\<lambda>p. pay_id p = i) (payments st))
   \<and> (find (\<lambda>p. pay_id p = i) (payments st) = None \<longrightarrow>
        fst (updatePaymentStatus i s st) = None \<and> snd (updatePaymentStatus i s st) = st)"
proof -
  have cols: "map f (map (\<lambda>p. if pay_id p = i then p\<lparr>pay_status := s\<rparr> else p) ps) = map f ps"
    if "\<And>p. f (p\<lparr>pay_status := s\<rparr>) = f p" for f :: "payment \<Rightarrow> 'a" and ps
    using that by (induction ps) simp_all
  have st: "map pay_status (map (\<lambda>p. if pay_id p = i then p\<lparr>pay_status := s\<rparr> else p) ps)
      = map (\<lambda>p. if pay_id p = i then s else pay_status p) ps" for ps
    by (induction ps) simp_all
  show ?thesis
    by (simp add: updatePaymentStatus_def Let_def cols st find_updated_row no_row_updated)
qed

text \<open>On the sample store: the pending payment is rewritten, an unknown identifier is not found.\<close>

theorem updatePaymentStatus_changes_status_only_witness:
  "fst (updatePaymentStatus ''pay_1'' ''succeeded'' sample_store)
      = Some (pending_payment\<lparr>pay_status := ''succeeded''\<rparr>)
   \<and> map pay_amount (payments (snd (updatePaymentStatus ''pay_1'' ''succeeded'' sample_store))) = [''29.00'']
   \<and> find (\<lambda>p. pay_id p = ''pay_9'') (payments sample_store) = None
   \<and> fst (updatePaymentStatus ''pay_9'' ''succeeded'' sample_store) = None
   \<and> snd (updatePaymentStatus ''pay_9'' ''succeeded'' sample_store) = sample_store"
proof -
  have none: "find (\<lambda>p. pay_id p = ''pay_9'') (payments sample_store) = None"
    by (simp add: sample_store_def pending_payment_def)
  show ?thesis
    using updatePaymentStatus_changes_status_only [of "''pay_1''" "''succeeded''" sample_store]
      updatePaymentStatus_changes_status_only [of "''pay_9''" "''succeeded''" sample_store] none
    by (simp add: sample_store_def pending_payment_def)
qed

section \<open>What the portfolio request does\<close>

text \<open>
  The loop in closed form: from index \<open>i\<close> it appends one entry for each remaining sample
  value, dated by successive readings of the clock, and touches nothing else.
\<close>

lemma sample_history_loop_closed:
  "i \<le> 10 \<Longrightarrow> sample_history_loop pid i w =
     w\<lparr>db := (db w)\<lparr>portfolioHistory := portfolioHistory (db w) @
           map (\<lambda>j. \<lparr>h_portfolioId = pid, h_value = sample_values ! (i + j),
                      h_date = clock w (ticks w + j)\<rparr>) [0..<10 - i]\<rparr>,
       ticks := ticks w + (10 - i)\<rparr>"
proof (induction pid i w rule: sample_history_loop.induct)
  case (1 pid i w)
  show ?case
  proof (cases "i < 10")
    case False
    with "1.prems" have "i = 10" by simp
    then show ?thesis
      by (subst sample_history_loop.simps) (simp add: sample_dates_def)
  next
    case True
    then have len: "i < length sample_dates" by (simp add: sample_dates_def)
    have split: "[0..<10 - i] = 0 # map Suc [0..<10 - Suc i]"
    proof -
      have "10 - i = Suc (10 - Suc i)" using True by simp
      moreover have "[0..<Suc n] = 0 # map Suc [0..<n]" for n
        by (simp add: upt_conv_Cons map_Suc_upt del: upt_Suc)
      ultimately show ?thesis by simp
    qed
    let ?w1 = "w\<lparr>ticks := Suc (ticks w)\<rparr>"
    let ?w2 = "?w1\<lparr>db := snd (addPortfolioHistory pid (sample_values ! i) (clock w (ticks w)) (db ?w1))\<rparr>"
    have ih: "sample_history_loop pid (i + 1) ?w2 =
       ?w2\<lparr>db := (db ?w2)\<lparr>portfolioHistory := portfolioHistory (db ?w2) @
           map (\<lambda>j. \<lparr>h_portfolioId = pid, h_value = sample_values ! (i + 1 + j),
                      h_date = clock ?w2 (ticks ?w2 + j)\<rparr>) [0..<10 - (i + 1)]\<rparr>,
         ticks := ticks ?w2 + (10 - (i + 1))\<rparr>"
      using "1.IH" [OF len, of "clock w (ticks w)" ?w1] True
      by (simp add: newDate_def)
    have "sample_history_loop pid i w = sample_history_loop pid (i + 1) ?w2"
      by (subst sample_history_loop.simps) (simp add: len newDate_def)
    also note ih
    finally show ?thesis
      using True by (simp add: split addPortfolioHistory_def Let_def comp_def Suc_diff_Suc)
  qed
qed

text \<open>
  Claim C9. For a user without a portfolio, the request stores one new portfolio with the
  demo values (total value 124567.00, total return 18.4000, monthly deposit 2500.00, 12
  active investments) and appends exactly ten history entries to it, one for each sample
  value, before it answers with status 200; users, plans, payments and the processor are
  untouched. For a user who has a portfolio the request leaves the world as it is.
\<close>

theorem get_portfolio_creates_once:
  "(getUserPortfolio userId (db w) = None \<longrightarrow>
      portfolios (db (fst (get_portfolio w userId))) = portfolios (db w) @
         [\<lparr>pf_id = ids w (drawn w), pf_userId = userId, pf_totalValue = ''124567.00'',
           pf_totalReturn = ''18.4000'', pf_monthlyDeposit = ''2500.00'',
           pf_activeInvestments = 12\<rparr>]
      \<and> portfolioHistory (db (fst (get_portfolio w userId))) = portfolioHistory (db w) @
           map (\<lambda>k. \<lparr>h_portfolioId = ids w (drawn w), h_value = sample_values ! k,
                      h_date = clock w (ticks w + k)\<rparr>) [0..<10]
      \<and> length (portfolioHistory (db (fst (get_portfolio w userId))))
           = length (portfolioHistory (db w)) + 10
      \<and> users (db (fst (get_portfolio w userId))) = users (db w)
      \<and> plans (db (fst (get_portfolio w userId))) = plans (db w)
      \<and> payments (db (fst (get_portfolio w userId))) = payments (db w)
      \<and> stripe (fst (get_portfolio w userId)) = stripe w
      \<and> status (snd (get_portfolio w userId)) = 200)
   \<and> (getUserPortfolio userId (db w) \<noteq> None \<longrightarrow> fst (get_portfolio w userId) = w)"
proof (cases "getUserPortfolio userId (db w)")
  case (Some p)
  then show ?thesis by (simp add: get_portfolio_def)
next
  case None
  then show ?thesis
    by (simp add: get_portfolio_def newId_def createPortfolio_def Let_def
        sample_history_loop_closed json_reply_def)
qed

text \<open>On the sample world: \<^verbatim>\<open>u1\<close> has no portfolio yet, \<^verbatim>\<open>u3\<close> has one.\<close>

theorem get_portfolio_creates_once_witness:
  "getUserPortfolio ''u1'' (db sample_world) = None
   \<and> length (portfolioHistory (db (fst (get_portfolio sample_world ''u1'')))) = 11
   \<and> map pf_userId (portfolios (db (fst (get_portfolio sample_world ''u1'')))) = [''u3'', ''u1'']
   \<and> getUserPortfolio ''u3'' (db sample_world) \<noteq> None
   \<and> fst (get_portfolio sample_world ''u3'') = sample_world"
proof -
  have new: "getUserPortfolio ''u1'' (db sample_world) = None"
    by (simp add: getUserPortfolio_def sample_world_def sample_store_def carol_portfolio_def)
  have old: "getUserPortfolio ''u3'' (db sample_world) \<noteq> None"
    by (simp add: getUserPortfolio_def sample_world_def sample_store_def carol_portfolio_def)
  show ?thesis
    using get_portfolio_creates_once [of "''u1''" sample_world]
      get_portfolio_creates_once [of "''u3''" sample_world] new old
    by (simp add: sample_world_def sample_store_def carol_portfolio_def)
qed

section \<open>What the subscription request does\<close>

text \<open>
  Retrieving an existing subscription reads the processor and writes nothing; its reply
  depends on the processor's objects only.
\<close>

lemma retrieve_existing_world: "fst (retrieve_existing w sid) = w"
  by (simp add: retrieve_existing_def split: sum.splits)

lemma retrieve_existing_reply:
  "stripe w' = stripe w \<Longrightarrow> snd (retrieve_existing w' sid) = snd (retrieve_existing w sid)"
  by (simp add: retrieve_existing_def split: sum.splits)

lemma subscriptions_retrieve_id:
  "subscriptions_retrieve sid p = Inr sub \<Longrightarrow> sub_id sub = sid"
  by (auto simp add: subscriptions_retrieve_def find_Some_iff split: option.splits)

lemma truthy_Some: "truthy (Some s) = (s \<noteq> [])"
  by (simp add: truthy_def)

lemma js_or_Some: "s \<noteq> [] \<Longrightarrow> js_or (Some s) d = s"
  by (simp add: js_or_def)

text \<open>The handler on a user who has a subscription recorded.\<close>

lemma create_subscription_existing:
  assumes "getUser userId (db w) = Some u" and "u_stripeSubscriptionId u = Some sid" and "sid \<noteq> []"
  shows "create_subscription w userId planId =
     (if \<not> truthy planId then (w, status_reply 400 (Message ''Plan ID is required''))
      else if getPlan (js_or planId []) (db w) = None
      then (w, status_reply 404 (Message ''Plan not found''))
      else (case snd (retrieve_existing w sid) of
              Inr r \<Rightarrow> (w, r)
            | Inl e \<Rightarrow>
                (console_error ''Error creating subscription:'' e w,
                 status_reply 500 (Message (''Error creating subscription: '' @ message e)))))"
proof -
  obtain w' res where r: "retrieve_existing w sid = (w', res)"
    by (cases "retrieve_existing w sid")
  with retrieve_existing_world [of w sid] have "w' = w" by simp
  with r assms show ?thesis
    by (cases res)
       (auto simp add: create_subscription_def create_subscription_try_def Let_def
          truthy_Some js_or_Some split: option.splits)
qed

lemma create_subscription_existing_reply:
  assumes "getUser userId (db w) = Some u" and "u_stripeSubscriptionId u = Some sid" and "sid \<noteq> []"
    and "db w' = db w" and "stripe w' = stripe w"
  shows "snd (create_subscription w' userId planId) = snd (create_subscription w userId planId)"
proof -
  have u': "getUser userId (db w') = Some u"
    using assms(1,4) by simp
  show ?thesis
    using retrieve_existing_reply [OF assms(5), of sid]
    by (simp add: create_subscription_existing [OF u' assms(2,3)]
        create_subscription_existing [OF assms(1,2,3)] assms(4) split: sum.splits)
qed

lemma console_error_db: "db (console_error l e w) = db w"
  by (simp add: console_error_def)

lemma console_error_stripe: "stripe (console_error l e w) = stripe w"
  by (simp add: console_error_def)

text \<open>
  The branch that creates, in closed form: one customer, one subscription and its invoice
  are added to the processor, and the user's row is rewritten twice. So the handler does
  write, on the one path where no check stops it.
\<close>

lemma create_new_writes:
  "create_new w userId pid u pl =
     (w\<lparr>stripe := (stripe w)\<lparr>
            customers := customers (stripe w) @
              [\<lparr>cus_id = ids w (drawn w), cus_email = js_or (u_email u) [],
                cus_name = (if js_trim (js_or (u_firstName u) [] @ '' '' @ js_or (u_lastName u) []) = []
                            then js_or (u_email u) []
                            else js_trim (js_or (u_firstName u) [] @ '' '' @ js_or (u_lastName u) [])),
                cus_userId = userId\<rparr>],
            subscriptions := subscriptions (stripe w) @
              [\<lparr>sub_id = ids w (Suc (drawn w)), sub_customer = ids w (drawn w),
                sub_productName = pl_name pl, sub_price = pl_price pl,
                sub_latest_invoice = Some (ids w (Suc (Suc (drawn w))))\<rparr>],
            invoices := invoices (stripe w) @
              [\<lparr>inv_id = ids w (Suc (Suc (drawn w))),
                inv_payment_intent = Some \<lparr>pi_client_secret = Some (ids w (Suc (Suc (Suc (drawn w)))))\<rparr>\<rparr>]\<rparr>,
         drawn := Suc (Suc (Suc (Suc (drawn w)))), ticks := Suc (Suc (ticks w)),
         db := snd (updateUser userId \<lparr>set_currentPlan = Some pid\<rparr> (clock w (Suc (ticks w)))
                 (snd (updateUserStripeInfo userId (ids w (drawn w)) (ids w (Suc (drawn w)))
                    (clock w (ticks w)) (db w))))\<rparr>,
      Inr (json_reply (SubscriptionReply (ids w (Suc (drawn w))) (Some (ids w (Suc (Suc (Suc (drawn w)))))))))"
  by (simp add: create_new_def Let_def newId_def newDate_def customers_create_def
      subscriptions_create_def split: prod.splits)

lemma create_subscription_writes:
  assumes "getUser userId (db w) = Some u" and "\<not> truthy (u_stripeSubscriptionId u)"
    and "truthy (u_email u)" and "pid \<noteq> []" and "getPlan pid (db w) = Some pl"
  shows "length (customers (stripe (fst (create_subscription w userId (Some pid)))))
           = Suc (length (customers (stripe w)))
    \<and> length (subscriptions (stripe (fst (create_subscription w userId (Some pid)))))
           = Suc (length (subscriptions (stripe w)))
    \<and> snd (create_subscription w userId (Some pid))
           = json_reply (SubscriptionReply (ids w (Suc (drawn w)))
               (Some (ids w (Suc (Suc (Suc (drawn w)))))))"
  using assms
  by (simp add: create_subscription_def create_subscription_try_def Let_def truthy_Some
      js_or_Some create_new_writes)

text \<open>
  Claim C4 says that a user with a recorded subscription gets its identifier and client
  secret back from every call. The user \<^verbatim>\<open>u3\<close> has the subscription \<^verbatim>\<open>sub_1\<close> recorded and
  asks for a plan that is not in the store: the reply is 404.
\<close>

theorem existing_subscription_plan_not_found:
  "getUser ''u3'' (db sample_world) = Some carol
   \<and> u_stripeSubscriptionId carol = Some ''sub_1''
   \<and> create_subscription sample_world ''u3'' (Some ''platinum'')
        = (sample_world, \<lparr>status = 404, body = Message ''Plan not found''\<rparr>)"
  by (simp add: create_subscription_def create_subscription_try_def Let_def truthy_def js_or_def
      getUser_def getPlan_def sample_world_def sample_store_def alice_def bob_def carol_def
      defaultPlans_def status_reply_def)

text \<open>
  Claim C4, as the code has it. For a user with a recorded subscription identifier, a call
  creates no customer and no subscription at the processor and writes nothing to the
  database, and a second call gets the reply of the first. When the request names a plan
  that exists and the processor finds the subscription and its latest invoice, that reply
  is the recorded subscription identifier with the client secret of the invoice's payment
  intent (none when the invoice has no payment intent).
\<close>

theorem existing_subscription_retrieved:
  assumes "getUser userId (db w) = Some u" and "u_stripeSubscriptionId u = Some sid" and "sid \<noteq> []"
  shows "db (fst (create_subscription w userId planId)) = db w
    \<and> stripe (fst (create_subscription w userId planId)) = stripe w
    \<and> snd (create_subscription (fst (create_subscription w userId planId)) userId planId)
         = snd (create_subscription w userId planId)
    \<and> (planId = Some pid \<and> pid \<noteq> [] \<and> getPlan pid (db w) = Some pl
         \<and> subscriptions_retrieve sid (stripe w) = Inr sub
         \<and> invoices_retrieve (sub_latest_invoice sub) (stripe w) = Inr bill
       \<longrightarrow> create_subscription w userId planId =
             (w, json_reply (SubscriptionReply sid
                   (case inv_payment_intent bill of
                      None \<Rightarrow> None
                    | Some paymentIntent \<Rightarrow> pi_client_secret paymentIntent))))"
proof -
  let ?w1 = "fst (create_subscription w userId planId)"
  note first = create_subscription_existing [OF assms, of planId]
  have d: "db ?w1 = db w" and s: "stripe ?w1 = stripe w"
    by (simp_all add: first console_error_db console_error_stripe split: sum.splits)
  have again: "snd (create_subscription ?w1 userId planId) = snd (create_subscription w userId planId)"
    by (rule create_subscription_existing_reply [OF assms d s])
  have ok: "create_subscription w userId planId =
      (w, json_reply (SubscriptionReply sid
            (case inv_payment_intent bill of
               None \<Rightarrow> None
             | Some paymentIntent \<Rightarrow> pi_client_secret paymentIntent)))"
    if "planId = Some pid" "pid \<noteq> []" "getPlan pid (db w) = Some pl"
      "subscriptions_retrieve sid (stripe w) = Inr sub"
      "invoices_retrieve (sub_latest_invoice sub) (stripe w) = Inr bill"
    using that subscriptions_retrieve_id [OF that(4)]
    by (simp add: create_subscription_existing [OF assms] truthy_Some js_or_Some
        retrieve_existing_def)
  from d s again ok show ?thesis by blast
qed

text \<open>On the sample world, for the subscribed user and the plan \<^verbatim>\<open>professional\<close>.\<close>

theorem existing_subscription_retrieved_witness:
  "getUser ''u3'' (db sample_world) = Some carol
   \<and> u_stripeSubscriptionId carol = Some ''sub_1''
   \<and> getPlan ''professional'' (db sample_world) = Some (defaultPlans ! 1)
   \<and> subscriptions_retrieve ''sub_1'' (stripe sample_world) = Inr (hd (subscriptions sample_processor))
   \<and> invoices_retrieve (sub_latest_invoice (hd (subscriptions sample_processor))) (stripe sample_world)
        = Inr (hd (invoices sample_processor))
   \<and> create_subscription sample_world ''u3'' (Some ''professional'')
        = (sample_world, \<lparr>status = 200, body = SubscriptionReply ''sub_1'' (Some ''pi_1_secret'')\<rparr>)
   \<and> snd (create_subscription (fst (create_subscription sample_world ''u3'' (Some ''professional'')))
             ''u3'' (Some ''professional''))
        = \<lparr>status = 200, body = SubscriptionReply ''sub_1'' (Some ''pi_1_secret'')\<rparr>"
proof -
  have u: "getUser ''u3'' (db sample_world) = Some carol"
    by (simp add: getUser_def sample_world_def sample_store_def alice_def bob_def carol_def)
  have sid: "u_stripeSubscriptionId carol = Some ''sub_1''" and ne: "''sub_1'' \<noteq> []"
    by (simp_all add: carol_def)
  have pl: "getPlan ''professional'' (db sample_world) = Some (defaultPlans ! 1)"
    by (simp add: getPlan_def sample_world_def sample_store_def defaultPlans_def)
  have sub: "subscriptions_retrieve ''sub_1'' (stripe sample_world) = Inr (hd (subscriptions sample_processor))"
    by (simp add: subscriptions_retrieve_def sample_world_def sample_processor_def)
  have bill: "invoices_retrieve (sub_latest_invoice (hd (subscriptions sample_processor))) (stripe sample_world)
        = Inr (hd (invoices sample_processor))"
    by (simp add: invoices_retrieve_def sample_world_def sample_processor_def)
  show ?thesis
    using existing_subscription_retrieved [OF u sid ne, where planId = "Some ''professional''"
        and pid = "''professional''" and pl = "defaultPlans ! 1"
        and sub = "hd (subscriptions sample_processor)" and bill = "hd (invoices sample_processor)"]
      u sid pl sub bill
    by (simp add: json_reply_def sample_processor_def)
qed

text \<open>
  Claim C5 says that a user who is not in the store gets 404. When the request carries no
  plan identifier the handler answers 400 before it looks the user up.
\<close>

theorem missing_plan_id_is_400:
  "getUser ''u9'' (db sample_world) = None
   \<and> create_subscription sample_world ''u9'' None
        = (sample_world, \<lparr>status = 400, body = Message ''Plan ID is required''\<rparr>)"
  by (simp add: create_subscription_def create_subscription_try_def truthy_def
      getUser_def sample_world_def sample_store_def alice_def bob_def carol_def status_reply_def)

text \<open>
  Claim C5, as the code has it. A request without a plan identifier fails with 400 (Plan ID
  is required). A request with one fails with 404 and a message when the user does not
  exist (User not found) or, the user existing, the plan does not (Plan not found). In all
  three cases the world is unchanged: no processor object is created and no user row is
  updated.
\<close>

theorem not_found_when_plan_id_given:
  "(\<not> truthy planId \<longrightarrow>
      create_subscription w userId planId = (w, status_reply 400 (Message ''Plan ID is required'')))
   \<and> (planId = Some pid \<and> pid \<noteq> [] \<and> getUser userId (db w) = None \<longrightarrow>
      create_subscription w userId planId = (w, status_reply 404 (Message ''User not found'')))
   \<and> (planId = Some pid \<and> pid \<noteq> [] \<and> getUser userId (db w) \<noteq> None \<and> getPlan pid (db w) = None \<longrightarrow>
      create_subscription w userId planId = (w, status_reply 404 (Message ''Plan not found'')))"
  by (auto simp add: create_subscription_def create_subscription_try_def Let_def truthy_Some
      js_or_Some)

text \<open>On the sample world: no plan identifier; an unknown user; an unknown plan.\<close>

theorem not_found_when_plan_id_given_witness:
  "\<not> truthy None
   \<and> create_subscription sample_world ''u9'' None
        = (sample_world, \<lparr>status = 400, body = Message ''Plan ID is required''\<rparr>)
   \<and> getUser ''u9'' (db sample_world) = None
   \<and> create_subscription sample_world ''u9'' (Some ''starter'')
        = (sample_world, \<lparr>status = 404, body = Message ''User not found''\<rparr>)
   \<and> getUser ''u1'' (db sample_world) \<noteq> None
   \<and> getPlan ''platinum'' (db sample_world) = None
   \<and> create_subscription sample_world ''u1'' (Some ''platinum'')
        = (sample_world, \<lparr>status = 404, body = Message ''Plan not found''\<rparr>)"
proof -
  have a: "\<not> truthy None"
    by (simp add: truthy_def)
  have b: "getUser ''u9'' (db sample_world) = None"
    by (simp add: getUser_def sample_world_def sample_store_def alice_def bob_def carol_def)
  have c: "getUser ''u1'' (db sample_world) \<noteq> None"
    by (simp add: getUser_def sample_world_def sample_store_def alice_def bob_def carol_def)
  have d: "getPlan ''platinum'' (db sample_world) = None"
    by (simp add: getPlan_def sample_world_def sample_store_def defaultPlans_def)
  show ?thesis
    using not_found_when_plan_id_given [of None sample_world "''u9''" "''starter''"]
      not_found_when_plan_id_given [of "Some ''starter''" sample_world "''u9''" "''starter''"]
      not_found_when_plan_id_given [of "Some ''platinum''" sample_world "''u1''" "''platinum''"]
      a b c d
    by (simp add: status_reply_def)
qed

text \<open>
  Claim C6 says that an existing user without an email address gets 400. The user \<^verbatim>\<open>u2\<close>
  has none and asks for a plan that is not in the store: the plan is looked up first, and
  the reply is 404.
\<close>

theorem no_email_plan_not_found:
  "getUser ''u2'' (db sample_world) = Some bob
   \<and> u_email bob = None
   \<and> create_subscription sample_world ''u2'' (Some ''platinum'')
        = (sample_world, \<lparr>status = 404, body = Message ''Plan not found''\<rparr>)"
  by (simp add: create_subscription_def create_subscription_try_def Let_def truthy_def js_or_def
      getUser_def getPlan_def sample_world_def sample_store_def alice_def bob_def carol_def
      defaultPlans_def status_reply_def)

text \<open>
  Claim C6, as the code has it. For an existing user without an email address a call never
  creates a processor object and never writes to the database. It fails with 400 when the
  request has no plan identifier, and with 400 (No user email on file) when the plan
  requested exists and the user has no subscription recorded.
\<close>

theorem no_email_no_processor_objects:
  assumes "getUser userId (db w) = Some u" and "\<not> truthy (u_email u)"
  shows "stripe (fst (create_subscription w userId planId)) = stripe w
    \<and> db (fst (create_subscription w userId planId)) = db w
    \<and> (\<not> truthy planId \<longrightarrow> status (snd (create_subscription w userId planId)) = 400)
    \<and> (planId = Some pid \<and> pid \<noteq> [] \<and> getPlan pid (db w) = Some pl
         \<and> \<not> truthy (u_stripeSubscriptionId u) \<longrightarrow>
        create_subscription w userId planId = (w, status_reply 400 (Message ''No user email on file'')))"
proof -
  obtain w' res where r: "retrieve_existing w (js_or (u_stripeSubscriptionId u) []) = (w', res)"
    by (cases "retrieve_existing w (js_or (u_stripeSubscriptionId u) [])")
  with retrieve_existing_world [of w "js_or (u_stripeSubscriptionId u) []"] have w': "w' = w"
    by simp
  show ?thesis
    using assms r w'
    by (cases res)
       (auto simp add: create_subscription_def create_subscription_try_def Let_def truthy_Some
          js_or_Some console_error_def status_reply_def split: option.splits)
qed

text \<open>On the sample world, for the user without an address and the plan \<^verbatim>\<open>starter\<close>.\<close>

theorem no_email_no_processor_objects_witness:
  "getUser ''u2'' (db sample_world) = Some bob
   \<and> \<not> truthy (u_email bob)
   \<and> getPlan ''starter'' (db sample_world) = Some (defaultPlans ! 0)
   \<and> \<not> truthy (u_stripeSubscriptionId bob)
   \<and> create_subscription sample_world ''u2'' (Some ''starter'')
        = (sample_world, \<lparr>status = 400, body = Message ''No user email on file''\<rparr>)"
proof -
  have u: "getUser ''u2'' (db sample_world) = Some bob"
    by (simp add: getUser_def sample_world_def sample_store_def alice_def bob_def carol_def)
  have e: "\<not> truthy (u_email bob)" and s: "\<not> truthy (u_stripeSubscriptionId bob)"
    by (simp_all add: truthy_def bob_def)
  have pl: "getPlan ''starter'' (db sample_world) = Some (defaultPlans ! 0)"
    by (simp add: getPlan_def sample_world_def sample_store_def defaultPlans_def)
  show ?thesis
    using no_email_no_processor_objects [OF u e, where planId = "Some ''starter''"
        and pid = "''starter''" and pl = "defaultPlans ! 0"] u e s pl
    by (simp add: status_reply_def)
qed

end
